theory Spec2Isabelle
  imports Main "HOL-Library.Sublist"
begin

section \<open>Text, characters and the tree value\<close>

text \<open>
  The source is one JavaScript file, \<^verbatim>\<open>src/xml.js\<close>: a regular-expression driven XML
  parser (\<^verbatim>\<open>XML.prototype.parse\<close> and its helpers), the static \<^verbatim>\<open>parse_xml\<close>, the
  entity codec and the composer \<^verbatim>\<open>compose_xml\<close>.

  Modelling conventions.
  \<^item> A JavaScript string is a \<^typ>\<open>string\<close>; a code unit is a \<^typ>\<open>char\<close> (the 8-bit
    range, so the white space class holds the seven Latin-1 members of \<^verbatim>\<open>\s\<close>).
  \<^item> A plain object is the association list of its own properties, in insertion
    order; \<^verbatim>\<open>for (key in hash)\<close> enumerates canonical array-index keys first, in
    numeric order (see \<open>own_keys\<close>). Properties inherited from
    \<^verbatim>\<open>Object.prototype\<close> (a tag named \<^verbatim>\<open>constructor\<close>, \<^verbatim>\<open>__proto__\<close>, ...) are not
    modelled.
  \<^item> Each regular expression of the source is a function that computes the match the
    backtracking matcher finds; the comment on each function gives the pattern.
  \<^item> \<^verbatim>\<open>throw\<close> is the left summand of a sum type.
\<close>

datatype node =
    Undefined
  | Scalar string
  | Element "(string \<times> node) list"
  | Sequence "node list"

type_synonym hash = "(string \<times> node) list"

definition is_space :: "char \<Rightarrow> bool" where
  \<comment> \<open>\<^verbatim>\<open>\s\<close>: TAB, LF, VT, FF, CR, SP, NBSP\<close>
  "is_space c = (let n = (of_char c :: nat) in (9 \<le> n \<and> n \<le> 13) \<or> n = 32 \<or> n = 160)"

definition is_word :: "char \<Rightarrow> bool" where
  \<comment> \<open>\<^verbatim>\<open>\w\<close>: \<^verbatim>\<open>[A-Za-z0-9_]\<close>\<close>
  "is_word c = (let n = (of_char c :: nat) in
     (48 \<le> n \<and> n \<le> 57) \<or> (65 \<le> n \<and> n \<le> 90) \<or> (97 \<le> n \<and> n \<le> 122) \<or> n = 95)"

definition is_name_char :: "char \<Rightarrow> bool" where
  \<comment> \<open>\<^verbatim>\<open>[\w\-\:\.]\<close>\<close>
  "is_name_char c = (is_word c \<or> c = CHR ''-'' \<or> c = CHR '':'' \<or> c = CHR ''.'')"

definition is_pi_name_char :: "char \<Rightarrow> bool" where
  \<comment> \<open>\<^verbatim>\<open>[\w\-\:]\<close>\<close>
  "is_pi_name_char c = (is_word c \<or> c = CHR ''-'' \<or> c = CHR '':'')"

definition is_line_terminator :: "char \<Rightarrow> bool" where
  \<comment> \<open>what \<^verbatim>\<open>.\<close> does not match: LF and CR\<close>
  "is_line_terminator c = (c = CHR 0x0A \<or> c = CHR 0x0D)"

definition to_lower_char :: "char \<Rightarrow> char" where
  \<comment> \<open>\<^verbatim>\<open>toLowerCase\<close> on one code unit of the 8-bit range\<close>
  "to_lower_char c = (let n = (of_char c :: nat) in
     if (65 \<le> n \<and> n \<le> 90) \<or> (192 \<le> n \<and> n \<le> 222 \<and> n \<noteq> 215) then char_of (n + 32) else c)"

definition toLowerCase :: "string \<Rightarrow> string" where
  "toLowerCase s = map to_lower_char s"

definition trim :: "string \<Rightarrow> string" where
  \<comment> \<open>\<^verbatim>\<open>text.replace(/^\s+/, "").replace(/\s+$/, "")\<close>\<close>
  "trim s = rev (dropWhile is_space (rev (dropWhile is_space s)))"

definition count_newlines :: "string \<Rightarrow> nat" where
  \<comment> \<open>\<^verbatim>\<open>s.match(/\n/g).length\<close>, 0 when there is no match\<close>
  "count_newlines s = length (filter (\<lambda>c. c = CHR 0x0A) s)"

section \<open>Entity codec\<close>

text \<open>
  \<^verbatim>\<open>text.replace(/pat/g, rep)\<close> for a literal, non-empty pattern: the matches are found
  left to right and do not overlap; the replacement text is not scanned again.
\<close>

function replace_all :: "string \<Rightarrow> string \<Rightarrow> string \<Rightarrow> string" where
  "replace_all pat rep s =
     (if s = [] \<or> pat = [] then s
      else if take (length pat) s = pat then rep @ replace_all pat rep (drop (length pat) s)
      else hd s # replace_all pat rep (tl s))"
  by pat_completeness auto
termination
  by (relation "measure (\<lambda>(pat, rep, s). length s)") auto

declare replace_all.simps [simp del]

definition encode_entities :: "string \<Rightarrow> string" where
  "encode_entities text =
     replace_all ''>'' ''&gt;'' (replace_all ''<'' ''&lt;'' (replace_all ''&'' ''&amp;'' text))"


definition decode_entities :: "string \<Rightarrow> string" where
  "decode_entities text =
     (if CHR ''&'' \<in> set text then
        replace_all ''&amp;'' ''&'' (replace_all ''&apos;'' [CHR 0x27]
          (replace_all ''&quot;'' [CHR 0x22]
            (replace_all ''&gt;'' ''>'' (replace_all ''&lt;'' ''<'' text))))
      else text)"

section \<open>Objects and values\<close>

definition hash_get :: "hash \<Rightarrow> string \<Rightarrow> node" where
  \<comment> \<open>\<^verbatim>\<open>hash[key]\<close>: \<^verbatim>\<open>undefined\<close> when the key is absent\<close>
  "hash_get h k = (case map_of h k of None \<Rightarrow> Undefined | Some v \<Rightarrow> v)"

definition is_defined :: "node \<Rightarrow> bool" where
  \<comment> \<open>\<^verbatim>\<open>typeof(v) != 'undefined'\<close>\<close>
  "is_defined v = (v \<noteq> Undefined)"

fun hash_set :: "hash \<Rightarrow> string \<Rightarrow> node \<Rightarrow> hash" where
  \<comment> \<open>\<^verbatim>\<open>hash[key] = v\<close>: an existing key keeps its place, a new key goes last\<close>
  "hash_set [] k v = [(k, v)]"
| "hash_set ((k', v') # h) k v = (if k' = k then (k, v) # h else (k', v') # hash_set h k v)"

definition hash_delete :: "hash \<Rightarrow> string \<Rightarrow> hash" where
  \<comment> \<open>\<^verbatim>\<open>delete hash[key]\<close>\<close>
  "hash_delete h k = filter (\<lambda>kv. fst kv \<noteq> k) h"

definition num_keys :: "hash \<Rightarrow> nat" where
  "num_keys h = length h"

definition is_digit :: "char \<Rightarrow> bool" where
  "is_digit c = (let n = (of_char c :: nat) in 48 \<le> n \<and> n \<le> 57)"

definition nat_of_digits :: "string \<Rightarrow> nat" where
  "nat_of_digits s = foldl (\<lambda>n c. 10 * n + (of_char c - 48)) 0 s"

definition is_array_index :: "string \<Rightarrow> bool" where
  \<comment> \<open>a canonical numeric string below \<open>2^32 - 1\<close>: such keys are enumerated first\<close>
  "is_array_index k =
     (k \<noteq> [] \<and> list_all is_digit k \<and> (k = ''0'' \<or> hd k \<noteq> CHR ''0'')
      \<and> nat_of_digits k < 4294967295)"

definition own_keys :: "hash \<Rightarrow> string list" where
  \<comment> \<open>the order of \<^verbatim>\<open>for (key in hash)\<close>\<close>
  "own_keys h =
     (let ks = map fst h
      in sort_key nat_of_digits (filter is_array_index ks)
         @ filter (\<lambda>k. \<not> is_array_index k) ks)"


definition first_key :: "hash \<Rightarrow> string option" where
  \<comment> \<open>\<^verbatim>\<open>null\<close> is \<open>None\<close>\<close>
  "first_key h = (case own_keys h of [] \<Rightarrow> None | k # _ \<Rightarrow> Some k)"

fun js_to_string :: "node \<Rightarrow> string" and js_join :: "node list \<Rightarrow> string" where
  \<comment> \<open>string conversion as \<^verbatim>\<open>+\<close> performs it; an array is its members joined by a
      comma, an \<^verbatim>\<open>undefined\<close> member being empty\<close>
  "js_to_string Undefined = ''undefined''"
| "js_to_string (Scalar s) = s"
| "js_to_string (Element h) = ''[object Object]''"
| "js_to_string (Sequence xs) = js_join xs"
| "js_join [] = []"
| "js_join [x] = (if x = Undefined then [] else js_to_string x)"
| "js_join (x # y # ys) =
     (if x = Undefined then [] else js_to_string x) @ '','' @ js_join (y # ys)"

definition js_name :: "string option \<Rightarrow> string" where
  \<comment> \<open>a name that may be \<^verbatim>\<open>null\<close>, as \<^verbatim>\<open>+\<close> prints it\<close>
  "js_name name = (case name of None \<Rightarrow> ''null'' | Some n \<Rightarrow> n)"

section \<open>The parser\<close>

record options =
  preserveDocumentNode :: bool
  preserveAttributes :: bool
  preserveWhitespace :: bool
  lowerCase :: bool
  forceArrays :: bool
  attribsKey :: string
  dataKey :: string

definition default_options :: options where
  "default_options =
     \<lparr>preserveDocumentNode = False, preserveAttributes = False, preserveWhitespace = False,
      lowerCase = False, forceArrays = False, attribsKey = ''_Attribs'', dataKey = ''_Data''\<rparr>"

record parse_error =
  err_type :: string
  err_key :: string
  err_text :: string
  err_line :: int

record parser =
  lastIndex :: nat
  piNodeList :: "string list"
  dtdNodeList :: "string list"

subsection \<open>The regular expressions\<close>

definition patTag_at :: "string \<Rightarrow> (string \<times> string \<times> string) option" where
  \<comment> \<open>\<^verbatim>\<open>/([^<]*?)<([^>]+)>/\<close> matched at the head of \<open>s\<close>: the text before the first
      \<^verbatim>\<open><\<close>, the tag, and what follows the match\<close>
  "patTag_at s =
     (case dropWhile (\<lambda>c. c \<noteq> CHR ''<'') s of
        [] \<Rightarrow> None
      | _ # r \<Rightarrow>
          (let tag = takeWhile (\<lambda>c. c \<noteq> CHR ''>'') r;
               r' = dropWhile (\<lambda>c. c \<noteq> CHR ''>'') r
           in if tag = [] \<or> r' = [] then None
              else Some (takeWhile (\<lambda>c. c \<noteq> CHR ''<'') s, tag, tl r')))"

fun patTag_from :: "string \<Rightarrow> (string \<times> string \<times> string) option" where
  \<comment> \<open>the leftmost match: each start position in turn\<close>
  "patTag_from [] = None"
| "patTag_from (c # cs) =
     (case patTag_at (c # cs) of Some m \<Rightarrow> Some m | None \<Rightarrow> patTag_from cs)"

definition patTag_exec :: "string \<Rightarrow> nat \<Rightarrow> (string \<times> string \<times> nat) option" where
  \<comment> \<open>\<^verbatim>\<open>patTag.exec(text)\<close> from \<^verbatim>\<open>lastIndex\<close>: \<^verbatim>\<open>matches[1]\<close>, \<^verbatim>\<open>matches[2]\<close> and
      the new \<^verbatim>\<open>lastIndex\<close>\<close>
  "patTag_exec text i =
     (case patTag_from (drop i text) of
        None \<Rightarrow> None
      | Some (beforeTag, tag, rest) \<Rightarrow> Some (beforeTag, tag, length text - length rest))"

definition patSpecialTag :: "string \<Rightarrow> bool" where
  \<comment> \<open>\<^verbatim>\<open>/^\s*([\!\?])/\<close>\<close>
  "patSpecialTag tag =
     (case dropWhile is_space tag of [] \<Rightarrow> False | c # _ \<Rightarrow> c = CHR ''!'' \<or> c = CHR ''?'')"

definition patPITag :: "string \<Rightarrow> bool" where
  \<comment> \<open>\<^verbatim>\<open>/^\s*\?/\<close>\<close>
  "patPITag tag = (case dropWhile is_space tag of [] \<Rightarrow> False | c # _ \<Rightarrow> c = CHR ''?'')"

definition patCommentTag :: "string \<Rightarrow> bool" where
  \<comment> \<open>\<^verbatim>\<open>/^\s*\!--/\<close>\<close>
  "patCommentTag tag = prefix ''!--'' (dropWhile is_space tag)"

definition patDTDTag :: "string \<Rightarrow> bool" where
  \<comment> \<open>\<^verbatim>\<open>/^\s*\!DOCTYPE/\<close>\<close>
  "patDTDTag tag = prefix ''!DOCTYPE'' (dropWhile is_space tag)"

definition cdata_open :: "string \<Rightarrow> string option" where
  \<comment> \<open>\<^verbatim>\<open>^\s*\!\s*\[\s*CDATA\<close>: what follows the match\<close>
  "cdata_open tag =
     (case dropWhile is_space tag of
        [] \<Rightarrow> None
      | c # r1 \<Rightarrow>
          if c \<noteq> CHR ''!'' then None
          else (case dropWhile is_space r1 of
                  [] \<Rightarrow> None
                | d # r2 \<Rightarrow>
                    if d \<noteq> CHR ''['' then None
                    else if prefix ''CDATA'' (dropWhile is_space r2)
                    then Some (drop 5 (dropWhile is_space r2)) else None))"

definition patCDATATag :: "string \<Rightarrow> bool" where
  \<comment> \<open>\<^verbatim>\<open>/^\s*\!\s*\[\s*CDATA/\<close>\<close>
  "patCDATATag tag = (cdata_open tag \<noteq> None)"

fun up_to_last_close :: "string \<Rightarrow> string option" where
  \<comment> \<open>\<^verbatim>\<open>([^]*)\]\]\<close>: the greedy group ends at the last \<^verbatim>\<open>]]\<close>\<close>
  "up_to_last_close [] = None"
| "up_to_last_close (c # cs) =
     (case up_to_last_close cs of
        Some g \<Rightarrow> Some (c # g)
      | None \<Rightarrow> if prefix '']]'' (c # cs) then Some [] else None)"

definition patCDATANode :: "string \<Rightarrow> string option" where
  \<comment> \<open>\<^verbatim>\<open>/^\s*\!\s*\[\s*CDATA\s*\[([^]*)\]\]/\<close>: \<^verbatim>\<open>matches[1]\<close>\<close>
  "patCDATANode tag =
     (case cdata_open tag of
        None \<Rightarrow> None
      | Some r \<Rightarrow>
          (case dropWhile is_space r of
             [] \<Rightarrow> None
           | c # r' \<Rightarrow> if c = CHR ''['' then up_to_last_close r' else None))"

definition patStandardTag :: "string \<Rightarrow> (bool \<times> string \<times> string) option" where
  \<comment> \<open>\<^verbatim>\<open>/^\s*(\/?)([\w\-\:\.]+)\s*([\s\S]*)$/\<close>: whether \<^verbatim>\<open>matches[1]\<close> is the
      slash, \<^verbatim>\<open>matches[2]\<close> and \<^verbatim>\<open>matches[3]\<close>\<close>
  "patStandardTag tag =
     (let t = dropWhile is_space tag;
          closing = (t \<noteq> [] \<and> hd t = CHR ''/'');
          t' = (if closing then tl t else t);
          nodeName = takeWhile is_name_char t'
      in if nodeName = [] then None
         else Some (closing, nodeName, dropWhile is_space (dropWhile is_name_char t')))"

definition patSelfClosing :: "string \<Rightarrow> bool" where
  \<comment> \<open>\<^verbatim>\<open>/\/\s*$/\<close>\<close>
  "patSelfClosing s =
     (case dropWhile is_space (rev s) of [] \<Rightarrow> False | c # _ \<Rightarrow> c = CHR ''/'')"

definition patAttrib_at :: "string \<Rightarrow> (string \<times> string \<times> string) option" where
  \<comment> \<open>\<^verbatim>\<open>([\w\-\:\.]+)\s*=\s*(["'])([^\2]*?)\2\<close> matched at the head of \<open>s\<close>: the key,
      the value and what follows the match. In the character class \<^verbatim>\<open>\2\<close> is the code
      unit 2, so the value is the shortest run without it up to the closing quote.\<close>
  "patAttrib_at s =
     (if takeWhile is_name_char s = [] then None
      else (case dropWhile is_space (dropWhile is_name_char s) of
              [] \<Rightarrow> None
            | e # r1 \<Rightarrow>
                if e \<noteq> CHR ''='' then None
                else (case dropWhile is_space r1 of
                        [] \<Rightarrow> None
                      | q # r2 \<Rightarrow>
                          if q \<noteq> CHR 0x22 \<and> q \<noteq> CHR 0x27 then None
                          else if dropWhile (\<lambda>c. c \<noteq> q) r2 = []
                                  \<or> CHR 0x02 \<in> set (takeWhile (\<lambda>c. c \<noteq> q) r2)
                          then None
                          else Some (takeWhile is_name_char s,
                                     takeWhile (\<lambda>c. c \<noteq> q) r2,
                                     tl (dropWhile (\<lambda>c. c \<noteq> q) r2)))))"

fun patAttrib_from :: "string \<Rightarrow> (string \<times> string \<times> string) option" where
  "patAttrib_from [] = None"
| "patAttrib_from (c # cs) =
     (case patAttrib_at (c # cs) of Some m \<Rightarrow> Some m | None \<Rightarrow> patAttrib_from cs)"

definition patPINode :: "string \<Rightarrow> bool" where
  \<comment> \<open>\<^verbatim>\<open>/^\s*\?\s*([\w\-\:]+)\s*(.*)$/\<close>\<close>
  "patPINode tag =
     (case dropWhile is_space tag of
        [] \<Rightarrow> False
      | c # r \<Rightarrow>
          c = CHR ''?''
          \<and> takeWhile is_pi_name_char (dropWhile is_space r) \<noteq> []
          \<and> \<not> list_ex is_line_terminator
                (dropWhile is_space (dropWhile is_pi_name_char (dropWhile is_space r))))"

definition patEndComment :: "string \<Rightarrow> bool" where
  \<comment> \<open>\<^verbatim>\<open>/--$/\<close>\<close>
  "patEndComment tag = suffix ''--'' tag"

definition patEndDTD :: "string \<Rightarrow> bool" where
  \<comment> \<open>\<^verbatim>\<open>/\]$/\<close>\<close>
  "patEndDTD tag = suffix '']'' tag"

definition patEndCDATA :: "string \<Rightarrow> bool" where
  \<comment> \<open>\<^verbatim>\<open>/\]\]$/\<close>\<close>
  "patEndCDATA tag = suffix '']]'' tag"

definition doctype_name :: "string \<Rightarrow> string option" where
  \<comment> \<open>\<^verbatim>\<open>^\s*\!DOCTYPE\s+([\w\-\:]+)\s+\<close>: what follows the match\<close>
  "doctype_name tag =
     (let t = dropWhile is_space tag in
      if \<not> prefix ''!DOCTYPE'' t then None
      else (let r1 = drop 8 t; r2 = dropWhile is_space r1;
                r3 = dropWhile is_pi_name_char r2; r4 = dropWhile is_space r3
            in if r2 = r1 \<or> r3 = r2 \<or> r4 = r3 then None else Some r4))"

definition patExternalDTDNode :: "string \<Rightarrow> bool" where
  \<comment> \<open>\<^verbatim>\<open>^\s*\!DOCTYPE\s+([\w\-\:]+)\s+(SYSTEM|PUBLIC)\s+\"([^\"]+)\"\<close>\<close>
  "patExternalDTDNode tag =
     (case doctype_name tag of
        None \<Rightarrow> False
      | Some r \<Rightarrow>
          (prefix ''SYSTEM'' r \<or> prefix ''PUBLIC'' r)
          \<and> (let r1 = drop 6 r; r2 = dropWhile is_space r1
             in r2 \<noteq> r1
                \<and> (case r2 of
                     [] \<Rightarrow> False
                   | q # r3 \<Rightarrow>
                       q = CHR 0x22
                       \<and> takeWhile (\<lambda>c. c \<noteq> CHR 0x22) r3 \<noteq> []
                       \<and> dropWhile (\<lambda>c. c \<noteq> CHR 0x22) r3 \<noteq> [])))"

definition patInlineDTDNode :: "string \<Rightarrow> bool" where
  \<comment> \<open>\<^verbatim>\<open>/^\s*\!DOCTYPE\s+([\w\-\:]+)\s+\[/\<close>\<close>
  "patInlineDTDNode tag =
     (case doctype_name tag of None \<Rightarrow> False | Some r \<Rightarrow> prefix ''['' r)"

definition patDTDNode :: "string \<Rightarrow> bool" where
  \<comment> \<open>\<^verbatim>\<open>/^\s*\!DOCTYPE\s+([\w\-\:]+)\s+\[(.*)\]/\<close>: a \<^verbatim>\<open>]\<close> must follow the
      bracket before any line terminator\<close>
  "patDTDNode tag =
     (case doctype_name tag of
        None \<Rightarrow> False
      | Some r \<Rightarrow>
          prefix ''['' r
          \<and> CHR '']'' \<in> set (takeWhile (\<lambda>c. \<not> is_line_terminator c) (drop 1 r)))"

definition patStartsWithTag :: "string \<Rightarrow> bool" where
  \<comment> \<open>\<^verbatim>\<open>/^\s*</\<close>\<close>
  "patStartsWithTag text =
     (case dropWhile is_space text of [] \<Rightarrow> False | c # _ \<Rightarrow> c = CHR ''<'')"

subsection \<open>Errors\<close>

function string_of_nat :: "nat \<Rightarrow> string" where
  "string_of_nat n =
     (if n < 10 then [char_of (48 + n)]
      else string_of_nat (n div 10) @ [char_of (48 + n mod 10)])"
  by pat_completeness auto
termination
  by (relation "measure id") auto

declare string_of_nat.simps [simp del]

definition string_of_int :: "int \<Rightarrow> string" where
  "string_of_int i = (if i < 0 then ''-'' @ string_of_nat (nat (- i)) else string_of_nat (nat i))"

definition throwParseError :: "string \<Rightarrow> parser \<Rightarrow> string \<Rightarrow> string \<Rightarrow> parse_error" where
  \<comment> \<open>the record pushed on \<^verbatim>\<open>this.errors\<close>; the caller throws it\<close>
  "throwParseError text st key tag =
     \<lparr>err_type = ''Parse'', err_key = key, err_text = ''<'' @ tag @ ''>'',
      err_line = int (count_newlines (take (lastIndex st) text)) + 1 - int (count_newlines tag)\<rparr>"

definition getError :: "parse_error \<Rightarrow> string" where
  \<comment> \<open>the records of \<^verbatim>\<open>throwParseError\<close> have no \<^verbatim>\<open>code\<close> field\<close>
  "getError e =
     (if err_type e = [] then ''General'' else err_type e) @ '' Error'' @ '': '' @ err_key e
     @ (if err_line e \<noteq> 0 then '' on line '' @ string_of_int (err_line e) else [])
     @ (if err_text e \<noteq> [] then '': '' @ err_text e else [])"

subsection \<open>Special tags\<close>

function next_close_loop ::
  "(string \<Rightarrow> bool) \<Rightarrow> string \<Rightarrow> string \<Rightarrow> string + string \<times> string" where
  \<comment> \<open>the loop shared by the comment, DTD and CDATA parsers:
      \<^verbatim>\<open>while (!tag.match(patEnd)) { if (matches = patNextClose.exec(text)) tag += '>' + matches[1]; else throw }\<close>
      with \<^verbatim>\<open>patNextClose = /([^>]*?)>/g\<close>. \<open>rest\<close> is the text from
      \<^verbatim>\<open>patNextClose.lastIndex\<close> on; \<open>Inl\<close> carries the tag at the throw.\<close>
  "next_close_loop fin tag rest =
     (if fin tag then Inr (tag, rest)
      else if dropWhile (\<lambda>c. c \<noteq> CHR ''>'') rest = [] then Inl tag
      else next_close_loop fin (tag @ ''>'' @ takeWhile (\<lambda>c. c \<noteq> CHR ''>'') rest)
             (tl (dropWhile (\<lambda>c. c \<noteq> CHR ''>'') rest)))"
  by pat_completeness auto
termination
proof (relation "measure (\<lambda>(fin, tag, rest). length rest)")
  fix fin :: "string \<Rightarrow> bool" and tag rest :: string
  assume "dropWhile (\<lambda>c. c \<noteq> CHR ''>'') rest \<noteq> []"
  then have "length (tl (dropWhile (\<lambda>c. c \<noteq> CHR ''>'') rest))
      < length (dropWhile (\<lambda>c. c \<noteq> CHR ''>'') rest)"
    by (cases "dropWhile (\<lambda>c. c \<noteq> CHR ''>'') rest") simp_all
  also have "\<dots> \<le> length rest" by (rule length_dropWhile_le)
  finally show "((fin, tag @ ''>'' @ takeWhile (\<lambda>c. c \<noteq> CHR ''>'') rest,
                  tl (dropWhile (\<lambda>c. c \<noteq> CHR ''>'') rest)), (fin, tag, rest))
                \<in> measure (\<lambda>(fin, tag, rest). length rest)"
    by simp
qed simp

declare next_close_loop.simps [simp del]

definition parsePINode :: "string \<Rightarrow> parser \<Rightarrow> string \<Rightarrow> parse_error + string \<times> parser" where
  "parsePINode text st tag =
     (if \<not> patPINode tag then Inl (throwParseError text st ''Malformed processor instruction'' tag)
      else Inr (tag, st\<lparr>piNodeList := piNodeList st @ [tag]\<rparr>))"

definition parseCommentNode :: "string \<Rightarrow> parser \<Rightarrow> string \<Rightarrow> parse_error + string \<times> parser" where
  "parseCommentNode text st tag =
     (case next_close_loop patEndComment tag (drop (lastIndex st) text) of
        Inl tag' \<Rightarrow> Inl (throwParseError text st ''Unclosed comment tag'' tag')
      | Inr (tag', rest) \<Rightarrow> Inr (tag', st\<lparr>lastIndex := length text - length rest\<rparr>))"

definition parseDTDNode :: "string \<Rightarrow> parser \<Rightarrow> string \<Rightarrow> parse_error + string \<times> parser" where
  "parseDTDNode text st tag =
     (if patExternalDTDNode tag then Inr (tag, st\<lparr>dtdNodeList := dtdNodeList st @ [tag]\<rparr>)
      else if patInlineDTDNode tag then
        (case next_close_loop patEndDTD tag (drop (lastIndex st) text) of
           Inl tag' \<Rightarrow> Inl (throwParseError text st ''Unclosed DTD tag'' tag')
         | Inr (tag', rest) \<Rightarrow>
             (let st' = st\<lparr>lastIndex := length text - length rest\<rparr>
              in if patDTDNode tag' then Inr (tag', st'\<lparr>dtdNodeList := dtdNodeList st' @ [tag']\<rparr>)
                 else Inl (throwParseError text st' ''Malformed DTD tag'' tag')))
      else Inl (throwParseError text st ''Malformed DTD tag'' tag))"

definition parseCDATANode :: "string \<Rightarrow> parser \<Rightarrow> string \<Rightarrow> parse_error + string \<times> parser" where
  "parseCDATANode text st tag =
     (case next_close_loop patEndCDATA tag (drop (lastIndex st) text) of
        Inl tag' \<Rightarrow> Inl (throwParseError text st ''Unclosed CDATA tag'' tag')
      | Inr (tag', rest) \<Rightarrow>
          (let st' = st\<lparr>lastIndex := length text - length rest\<rparr>
           in case patCDATANode tag' of
                Some content \<Rightarrow> Inr (content, st')
              | None \<Rightarrow> Inl (throwParseError text st' ''Malformed CDATA tag'' tag')))"

subsection \<open>Attributes\<close>

lemma tl_dropWhile_shorter:
  "dropWhile P xs \<noteq> [] \<Longrightarrow> length (tl (dropWhile P xs)) < length xs"
proof -
  assume a: "dropWhile P xs \<noteq> []"
  then have "length (tl (dropWhile P xs)) < length (dropWhile P xs)"
    by (cases "dropWhile P xs") simp_all
  also have "\<dots> \<le> length xs" by (rule length_dropWhile_le)
  finally show ?thesis .
qed

lemma dropWhile_Cons_shorter:
  "dropWhile P xs = y # ys \<Longrightarrow> length ys < length xs"
  using tl_dropWhile_shorter [of P xs] by simp

lemma patAttrib_at_shorter:
  assumes "patAttrib_at s = Some (k, v, r)"
  shows "length r < length s"
proof -
  from assms obtain e r1 q r2 where
    1: "dropWhile is_space (dropWhile is_name_char s) = e # r1" and
    2: "dropWhile is_space r1 = q # r2" and
    3: "dropWhile (\<lambda>c. c \<noteq> q) r2 \<noteq> []" and
    4: "r = tl (dropWhile (\<lambda>c. c \<noteq> q) r2)"
    by (auto simp: patAttrib_at_def split: if_splits list.splits)
  have "length r < length r2" using 3 4 tl_dropWhile_shorter by blast
  also have "\<dots> < length r1" using 2 by (rule dropWhile_Cons_shorter)
  also have "\<dots> < length (dropWhile is_name_char s)" using 1 by (rule dropWhile_Cons_shorter)
  also have "\<dots> \<le> length s" by (rule length_dropWhile_le)
  finally show ?thesis .
qed

lemma patAttrib_from_shorter:
  "patAttrib_from s = Some (k, v, r) \<Longrightarrow> length r < length s"
proof (induction s)
  case Nil
  then show ?case by simp
next
  case (Cons c cs)
  then show ?case
    by (auto split: option.splits dest: patAttrib_at_shorter)
qed

function parse_attribs :: "string \<Rightarrow> (string \<times> string) list" where
  \<comment> \<open>\<^verbatim>\<open>while (matches = this.patAttrib.exec(attribsRaw))\<close>: the pairs
      \<^verbatim>\<open>(matches[1], matches[3])\<close> in the order found\<close>
  "parse_attribs s =
     (case patAttrib_from s of
        None \<Rightarrow> []
      | Some (key, v, rest) \<Rightarrow> (key, v) # parse_attribs rest)"
  by pat_completeness auto
termination
  by (relation "measure length") (auto dest: patAttrib_from_shorter)

declare parse_attribs.simps [simp del]

definition fold_case :: "options \<Rightarrow> string \<Rightarrow> string" where
  \<comment> \<open>\<^verbatim>\<open>this.lowerCase ? s.toLowerCase() : s\<close>\<close>
  "fold_case opts s = (if lowerCase opts then toLowerCase s else s)"

definition set_attribs :: "options \<Rightarrow> (string \<times> string) list \<Rightarrow> hash" where
  \<comment> \<open>\<^verbatim>\<open>attribs[key] = decode_entities(matches[3])\<close> for each pair, on an empty object\<close>
  "set_attribs opts pairs =
     foldl (\<lambda>h (key, v). hash_set h (fold_case opts key) (Scalar (decode_entities v))) [] pairs"

definition new_leaf :: "options \<Rightarrow> string \<Rightarrow> hash" where
  \<comment> \<open>\<^verbatim>\<open>leaf\<close> once the attributes are parsed (lines 169 to 189). In merged mode
      \<^verbatim>\<open>attribs\<close> is \<^verbatim>\<open>leaf\<close> itself; with \<^verbatim>\<open>preserveAttributes\<close> it is the object under
      \<^verbatim>\<open>attribsKey\<close>, which is deleted again when it has no key.\<close>
  "new_leaf opts attribsRaw =
     (let attribs = set_attribs opts (parse_attribs attribsRaw)
      in if preserveAttributes opts
         then (if num_keys attribs = 0 then [] else [(attribsKey opts, Element attribs)])
         else attribs)"

subsection \<open>Building the tree\<close>

definition append_data :: "options \<Rightarrow> hash \<Rightarrow> string \<Rightarrow> hash" where
  \<comment> \<open>lines 119 to 120 and 131 to 132:
      \<^verbatim>\<open>if (typeof(branch[dataKey]) != 'undefined') branch[dataKey] += ' '; else branch[dataKey] = '';\<close>
      \<^verbatim>\<open>branch[dataKey] += !preserveWhitespace ? trim(decode_entities(t)) : decode_entities(t);\<close>\<close>
  "append_data opts branch t =
     (let old = hash_get branch (dataKey opts);
          start = (if is_defined old then js_to_string old @ '' '' else [])
      in hash_set branch (dataKey opts)
           (Scalar (start @ (if \<not> preserveWhitespace opts then trim (decode_entities t)
                             else decode_entities t))))"

definition leading_text :: "options \<Rightarrow> hash \<Rightarrow> string \<Rightarrow> hash" where
  \<comment> \<open>lines 118 to 121: the text before the tag, when it has a character that is not
      white space\<close>
  "leading_text opts branch beforeTag =
     (if list_ex (\<lambda>c. \<not> is_space c) beforeTag then append_data opts branch beforeTag
      else branch)"

definition compress_leaf :: "options \<Rightarrow> hash \<Rightarrow> node" where
  \<comment> \<open>lines 198 to 204\<close>
  "compress_leaf opts leaf =
     (if is_defined (hash_get leaf (dataKey opts)) \<and> num_keys leaf = 1
      then hash_get leaf (dataKey opts)
      else if num_keys leaf = 0 then Scalar []
      else Element leaf)"

definition add_leaf :: "options \<Rightarrow> bool \<Rightarrow> hash \<Rightarrow> string \<Rightarrow> node \<Rightarrow> hash" where
  \<comment> \<open>lines 207 to 221; \<open>is_root\<close> is \<^verbatim>\<open>branch == this.tree\<close>\<close>
  "add_leaf opts is_root branch nodeName leaf =
     (if is_defined (hash_get branch nodeName) then
        (case hash_get branch nodeName of
           Sequence xs \<Rightarrow> hash_set branch nodeName (Sequence (xs @ [leaf]))
         | temp \<Rightarrow> hash_set branch nodeName (Sequence [temp, leaf]))
      else if forceArrays opts \<and> \<not> is_root then hash_set branch nodeName (Sequence [leaf])
      else hash_set branch nodeName leaf)"

definition parse_special ::
  "options \<Rightarrow> string \<Rightarrow> parser \<Rightarrow> hash \<Rightarrow> string \<Rightarrow> parse_error + hash \<times> parser" where
  \<comment> \<open>lines 125 to 140: the special tag is consumed and the loop continues\<close>
  "parse_special opts text st branch tag =
     (if patPITag tag then
        (case parsePINode text st tag of Inl e \<Rightarrow> Inl e | Inr (t, st') \<Rightarrow> Inr (branch, st'))
      else if patCommentTag tag then
        (case parseCommentNode text st tag of Inl e \<Rightarrow> Inl e | Inr (t, st') \<Rightarrow> Inr (branch, st'))
      else if patDTDTag tag then
        (case parseDTDNode text st tag of Inl e \<Rightarrow> Inl e | Inr (t, st') \<Rightarrow> Inr (branch, st'))
      else if patCDATATag tag then
        (case parseCDATANode text st tag of
           Inl e \<Rightarrow> Inl e
         | Inr (t, st') \<Rightarrow> Inr (append_data opts branch t, st'))
      else Inl (throwParseError text st ''Malformed special tag'' tag))"

text \<open>
  \<^verbatim>\<open>XML.prototype.parse(branch, name)\<close>. The first argument counts the calls still
  allowed (fuel); \<open>None\<close> is the fuel running out. The root call has
  \<^verbatim>\<open>name == null\<close> (\<open>None\<close>) and \<^verbatim>\<open>branch == this.tree\<close>; every recursive call gets
  a fresh \<^verbatim>\<open>leaf\<close> and a non-empty name, so \<^verbatim>\<open>branch == this.tree\<close> is \<open>name = None\<close>.
  The function returns the branch as the call left it and the parser's state; a thrown
  error is \<open>Inl\<close>. A failed \<^verbatim>\<open>patTag.exec\<close> resets \<^verbatim>\<open>lastIndex\<close> to 0. The checks after the
  loop that concern the root (lines 234 to 246) are \<open>finish_document\<close>.
\<close>

fun parse ::
  "nat \<Rightarrow> options \<Rightarrow> string \<Rightarrow> parser \<Rightarrow> hash \<Rightarrow> string option
     \<Rightarrow> (parse_error + hash \<times> parser) option" where
  "parse 0 opts text st branch name = None"
| "parse (Suc fuel) opts text st branch name =
     (case patTag_exec text (lastIndex st) of
        None \<Rightarrow>
          (case name of
             Some n \<Rightarrow>
               Some (Inl (throwParseError text (st\<lparr>lastIndex := 0\<rparr>)
                            (''Missing closing tag (expected </'' @ n @ ''>)'') n))
           | None \<Rightarrow> Some (Inr (branch, st\<lparr>lastIndex := 0\<rparr>)))
      | Some (beforeTag, tag, idx) \<Rightarrow>
          if patSpecialTag tag then
            (case parse_special opts text (st\<lparr>lastIndex := idx\<rparr>)
                    (leading_text opts branch beforeTag) tag of
               Inl e \<Rightarrow> Some (Inl e)
             | Inr (branch2, st2) \<Rightarrow> parse fuel opts text st2 branch2 name)
          else
            (case patStandardTag tag of
               None \<Rightarrow>
                 Some (Inl (throwParseError text (st\<lparr>lastIndex := idx\<rparr>) ''Malformed tag'' tag))
             | Some (closing, nodeName, attribsRaw) \<Rightarrow>
                 if closing then
                   (if fold_case opts nodeName = (case name of None \<Rightarrow> [] | Some n \<Rightarrow> n)
                    then Some (Inr (leading_text opts branch beforeTag, st\<lparr>lastIndex := idx\<rparr>))
                    else Some (Inl (throwParseError text (st\<lparr>lastIndex := idx\<rparr>)
                           (''Mismatched closing tag (expected </'' @ js_name name @ ''>)'') tag)))
                 else
                   (case (if patSelfClosing attribsRaw
                          then Some (Inr (new_leaf opts attribsRaw, st\<lparr>lastIndex := idx\<rparr>))
                          else parse fuel opts text (st\<lparr>lastIndex := idx\<rparr>)
                                 (new_leaf opts attribsRaw) (Some (fold_case opts nodeName))) of
                      None \<Rightarrow> None
                    | Some (Inl e) \<Rightarrow> Some (Inl e)
                    | Some (Inr (leaf, st2)) \<Rightarrow>
                        if name = None
                        then Some (Inr (add_leaf opts True (leading_text opts branch beforeTag)
                                          (fold_case opts nodeName) (compress_leaf opts leaf), st2))
                        else parse fuel opts text st2
                               (add_leaf opts False (leading_text opts branch beforeTag)
                                  (fold_case opts nodeName) (compress_leaf opts leaf))
                               name)))"

definition finish_document ::
  "options \<Rightarrow> string \<Rightarrow> parser \<Rightarrow> hash \<Rightarrow> parse_error + node \<times> string option" where
  \<comment> \<open>lines 234 to 246, for the root call: the tree and \<^verbatim>\<open>documentNodeName\<close>\<close>
  "finish_document opts text st tree0 =
     (let tree1 = (if is_defined (hash_get tree0 (dataKey opts))
                   then hash_delete tree0 (dataKey opts) else tree0)
      in if num_keys tree1 > 1 then
           Inl (throwParseError text st ''Only one top-level node is allowed in document''
                  (js_name (first_key tree1)))
         else (case first_key tree1 of
                 Some n \<Rightarrow>
                   if n \<noteq> [] \<and> \<not> preserveDocumentNode opts
                   then Inr (hash_get tree1 n, Some n)
                   else Inr (Element tree1, Some n)
               | None \<Rightarrow> Inr (Element tree1, None)))"

datatype outcome = Returned node | Thrown string

definition init_options :: "options \<Rightarrow> options" where
  \<comment> \<open>lines 68 to 71 of the constructor\<close>
  "init_options opts =
     (if lowerCase opts
      then opts\<lparr>attribsKey := toLowerCase (attribsKey opts), dataKey := toLowerCase (dataKey opts)\<rparr>
      else opts)"

definition initial_parser :: parser where
  "initial_parser = \<lparr>lastIndex = 0, piNodeList = [], dtdNodeList = []\<rparr>"

definition XML_text :: "(string \<Rightarrow> string + string) \<Rightarrow> string \<Rightarrow> string + string" where
  \<comment> \<open>lines 55 to 60: a text that does not start with a tag is a file path.
      \<open>readFileSync\<close> is the file system: \<open>Inl\<close> is the message of the error it throws.\<close>
  "XML_text readFileSync text =
     (if patStartsWithTag text then Inr text
      else (case readFileSync text of
              Inl msg \<Rightarrow> Inl msg
            | Inr contents \<Rightarrow>
                if contents = [] then Inl (''File not found: '' @ text) else Inr contents))"

definition XML_parse ::
  "options \<Rightarrow> string \<Rightarrow> (parse_error + node \<times> parser \<times> string option) option" where
  \<comment> \<open>the root call \<^verbatim>\<open>this.parse()\<close> of the constructor on a non-empty text, with
      enough fuel for every text (see \<open>parse_enough_fuel\<close>): the tree, the parser's
      state and \<^verbatim>\<open>documentNodeName\<close>\<close>
  "XML_parse opts text =
     (case parse (Suc (length text)) (init_options opts) text initial_parser [] None of
        None \<Rightarrow> None
      | Some (Inl e) \<Rightarrow> Some (Inl e)
      | Some (Inr (tree0, st)) \<Rightarrow>
          (case finish_document (init_options opts) text st tree0 of
             Inl e \<Rightarrow> Some (Inl e)
           | Inr (tree1, docName) \<Rightarrow> Some (Inr (tree1, st, docName))))"

definition parse_xml ::
  "(string \<Rightarrow> string + string) \<Rightarrow> options \<Rightarrow> string \<Rightarrow> outcome option" where
  \<comment> \<open>\<^verbatim>\<open>parse_xml(text, opts)\<close>: \<^verbatim>\<open>new XML(opts)\<close> throws what \<^verbatim>\<open>throwParseError\<close>
      throws, an \<^verbatim>\<open>Error\<close> whose message is \<^verbatim>\<open>getLastError()\<close>; line 433 is reached only
      when nothing was thrown, and then \<^verbatim>\<open>parser.error()\<close> is 0\<close>
  "parse_xml readFileSync opts text =
     (case XML_text readFileSync text of
        Inl msg \<Rightarrow> Some (Thrown msg)
      | Inr text' \<Rightarrow>
          (case XML_parse opts text' of
             None \<Rightarrow> None
           | Some (Inl e) \<Rightarrow> Some (Thrown (getError e))
           | Some (Inr (tree1, st, docName)) \<Rightarrow> Some (Returned tree1)))"

section \<open>The composer\<close>



































definition no_files :: "string \<Rightarrow> string + string" where
  \<comment> \<open>a file system with no file: \<^verbatim>\<open>readFileSync\<close> always throws\<close>
  "no_files path = Inl (''ENOENT: no such file or directory, open '' @ path)"

section \<open>The entity codec is invertible\<close>

lemma replace_all_Nil: "replace_all pat rep [] = []"
  by (simp add: replace_all.simps)

lemma replace_all_skip:
  "take (length pat) (c # cs) \<noteq> pat \<Longrightarrow> replace_all pat rep (c # cs) = c # replace_all pat rep cs"
  by (subst replace_all.simps) auto

lemma replace_all_hit:
  "pat \<noteq> [] \<Longrightarrow> take (length pat) (c # cs) = pat \<Longrightarrow>
   replace_all pat rep (c # cs) = rep @ replace_all pat rep (drop (length pat) (c # cs))"
  by (subst replace_all.simps) auto

lemma replace_all_absent:
  "pat \<noteq> [] \<Longrightarrow> hd pat \<notin> set s \<Longrightarrow> replace_all pat rep s = s"
proof (induction s)
  case Nil
  then show ?case by (simp add: replace_all_Nil)
next
  case (Cons c cs)
  from Cons.prems have "take (length pat) (c # cs) \<noteq> pat"
    by (cases pat) auto
  with Cons show ?case by (simp add: replace_all_skip)
qed

lemma replace_all_concat_map:
  assumes "\<And>c t. replace_all pat rep (f c @ t) = g c @ replace_all pat rep t"
  shows "replace_all pat rep (concat (map f s)) = concat (map g s)"
  by (induction s) (simp_all add: replace_all_Nil assms)

definition enc_step :: "char list \<Rightarrow> char \<Rightarrow> string" where
  "enc_step done c =
     (if c = CHR ''&'' then ''&amp;''
      else if c = CHR ''<'' \<and> CHR ''<'' \<in> set done then ''&lt;''
      else if c = CHR ''>'' \<and> CHR ''>'' \<in> set done then ''&gt;''
      else [c])"

lemma enc_amp: "replace_all ''&'' ''&amp;'' s = concat (map (enc_step []) s)"
proof -
  have "replace_all ''&'' ''&amp;'' (concat (map (\<lambda>c. [c]) s)) = concat (map (enc_step []) s)"
    by (rule replace_all_concat_map) (simp add: enc_step_def replace_all_skip replace_all_hit)
  then show ?thesis by simp
qed

lemma enc_lt:
  "replace_all ''<'' ''&lt;'' (concat (map (enc_step []) s)) = concat (map (enc_step ''<'') s)"
  by (rule replace_all_concat_map) (simp add: enc_step_def replace_all_skip replace_all_hit)

lemma enc_gt:
  "replace_all ''>'' ''&gt;'' (concat (map (enc_step ''<'') s)) = concat (map (enc_step ''<>'') s)"
  by (rule replace_all_concat_map) (simp add: enc_step_def replace_all_skip replace_all_hit)

lemma encode_entities_chars: "encode_entities s = concat (map (enc_step ''<>'') s)"
  by (simp add: encode_entities_def enc_amp enc_lt enc_gt)

lemma dec_lt:
  "replace_all ''&lt;'' ''<'' (concat (map (enc_step ''<>'') s)) = concat (map (enc_step ''>'') s)"
  by (rule replace_all_concat_map) (simp add: enc_step_def replace_all_skip replace_all_hit)

lemma dec_gt:
  "replace_all ''&gt;'' ''>'' (concat (map (enc_step ''>'') s)) = concat (map (enc_step []) s)"
  by (rule replace_all_concat_map) (simp add: enc_step_def replace_all_skip replace_all_hit)

lemma dec_quot:
  "replace_all ''&quot;'' rep (concat (map (enc_step []) s)) = concat (map (enc_step []) s)"
  by (rule replace_all_concat_map) (simp add: enc_step_def replace_all_skip replace_all_hit)

lemma dec_apos:
  "replace_all ''&apos;'' rep (concat (map (enc_step []) s)) = concat (map (enc_step []) s)"
  by (rule replace_all_concat_map) (simp add: enc_step_def replace_all_skip replace_all_hit)

lemma dec_amp: "replace_all ''&amp;'' ''&'' (concat (map (enc_step []) s)) = s"
proof -
  have "replace_all ''&amp;'' ''&'' (concat (map (enc_step []) s)) = concat (map (\<lambda>c. [c]) s)"
    by (rule replace_all_concat_map) (simp add: enc_step_def replace_all_skip replace_all_hit)
  then show ?thesis by simp
qed

lemma decode_entities_unguarded:
  "decode_entities t =
     replace_all ''&amp;'' ''&'' (replace_all ''&apos;'' [CHR 0x27]
       (replace_all ''&quot;'' [CHR 0x22]
         (replace_all ''&gt;'' ''>'' (replace_all ''&lt;'' ''<'' t))))"
  by (simp add: decode_entities_def replace_all_absent)

text \<open>
  Claim C4. For every string \<open>s\<close>, decoding the content encoding of \<open>s\<close> gives \<open>s\<close> back.
  The spec asks this of the strings built from ordinary characters and the five
  characters \<^verbatim>\<open>& < > " '\<close> that hold no entity sequence; it holds of every string,
  because encoding turns every \<^verbatim>\<open>&\<close> of \<open>s\<close> into \<^verbatim>\<open>&amp;\<close> first.
\<close>

theorem decode_encode_entities: "decode_entities (encode_entities s) = s"
  by (simp add: decode_entities_unguarded encode_entities_chars dec_lt dec_gt dec_quot dec_apos dec_amp)

section \<open>The parser always returns or throws\<close>




lemma next_close_loop_done: "fin tag \<Longrightarrow> next_close_loop fin tag rest = Inr (tag, rest)"
  by (subst next_close_loop.simps) simp


lemma next_close_loop_step:
  assumes "\<not> fin tag" and "dropWhile (\<lambda>c. c \<noteq> CHR ''>'') rest \<noteq> []"
  shows "next_close_loop fin tag rest =
     next_close_loop fin (tag @ ''>'' @ takeWhile (\<lambda>c. c \<noteq> CHR ''>'') rest)
       (tl (dropWhile (\<lambda>c. c \<noteq> CHR ''>'') rest))"
proof -
  have "next_close_loop fin tag rest =
     (if fin tag then Inr (tag, rest)
      else if dropWhile (\<lambda>c. c \<noteq> CHR ''>'') rest = [] then Inl tag
      else next_close_loop fin (tag @ ''>'' @ takeWhile (\<lambda>c. c \<noteq> CHR ''>'') rest)
             (tl (dropWhile (\<lambda>c. c \<noteq> CHR ''>'') rest)))"
    by (rule next_close_loop.simps)
  also have "\<dots> = next_close_loop fin (tag @ ''>'' @ takeWhile (\<lambda>c. c \<noteq> CHR ''>'') rest)
             (tl (dropWhile (\<lambda>c. c \<noteq> CHR ''>'') rest))"
    using assms by (simp only: if_False)
  finally show ?thesis .
qed










lemma parse_special_tag:
  "patTag_exec txt (lastIndex st) = Some (b, tag, idx) \<Longrightarrow> patSpecialTag tag \<Longrightarrow>
   parse (Suc fuel) opts txt st branch name =
     (case parse_special opts txt (st\<lparr>lastIndex := idx\<rparr>) (leading_text opts branch b) tag of
        Inl e \<Rightarrow> Some (Inl e)
      | Inr (branch2, st2) \<Rightarrow> parse fuel opts txt st2 branch2 name)"
  by simp


lemma parse_closing_tag:
  "patTag_exec txt (lastIndex st) = Some (b, tag, idx) \<Longrightarrow> \<not> patSpecialTag tag \<Longrightarrow>
   patStandardTag tag = Some (True, nodeName, attribsRaw) \<Longrightarrow>
   parse (Suc fuel) opts txt st branch name =
     (if fold_case opts nodeName = (case name of None \<Rightarrow> [] | Some n \<Rightarrow> n)
      then Some (Inr (leading_text opts branch b, st\<lparr>lastIndex := idx\<rparr>))
      else Some (Inl (throwParseError txt (st\<lparr>lastIndex := idx\<rparr>)
             (''Mismatched closing tag (expected </'' @ js_name name @ ''>)'') tag)))"
  by simp

lemma parse_opening_tag:
  "patTag_exec txt (lastIndex st) = Some (b, tag, idx) \<Longrightarrow> \<not> patSpecialTag tag \<Longrightarrow>
   patStandardTag tag = Some (False, nodeName, attribsRaw) \<Longrightarrow>
   parse (Suc fuel) opts txt st branch name =
     (case (if patSelfClosing attribsRaw
            then Some (Inr (new_leaf opts attribsRaw, st\<lparr>lastIndex := idx\<rparr>))
            else parse fuel opts txt (st\<lparr>lastIndex := idx\<rparr>)
                   (new_leaf opts attribsRaw) (Some (fold_case opts nodeName))) of
        None \<Rightarrow> None
      | Some (Inl e) \<Rightarrow> Some (Inl e)
      | Some (Inr (leaf, st2)) \<Rightarrow>
          if name = None
          then Some (Inr (add_leaf opts True (leading_text opts branch b)
                            (fold_case opts nodeName) (compress_leaf opts leaf), st2))
          else parse fuel opts txt st2
                 (add_leaf opts False (leading_text opts branch b)
                    (fold_case opts nodeName) (compress_leaf opts leaf))
                 name)"
  by simp

declare parse.simps [simp del]


lemma err_type_throwParseError [simp]: "err_type (throwParseError txt st key tag) = ''Parse''"
  by (simp add: throwParseError_def)













section \<open>Closing tags\<close>



text \<open>The two documents of the spec, through the public operation.\<close>

lemma mismatched_closing_tag_example:
  "parse_xml no_files default_options ''<A><B></A>'' =
     Some (Thrown ''Parse Error: Mismatched closing tag (expected </B>) on line 1: </A>'')"
  by code_simp

lemma missing_closing_tag_example:
  "parse_xml no_files default_options ''<A><B></B>'' =
     Some (Thrown ''Parse Error: Missing closing tag (expected </A>) on line 1: <A>'')"
  by code_simp

section \<open>Collapsing and attaching an element\<close>




lemma empty_elements_example:
  "parse_xml no_files (default_options\<lparr>preserveAttributes := True\<rparr>) ''<R><E></E><F/></R>'' =
     Some (Returned (Element [(''E'', Scalar []), (''F'', Scalar [])]))"
  by code_simp




lemma force_arrays_example:
  "parse_xml no_files (default_options\<lparr>forceArrays := True\<rparr>) ''<R><A><B>1</B></A></R>''
   = Some (Returned (Element [(''A'', Sequence [Element [(''B'', Sequence [Scalar ''1''])]])]))"
  by code_simp

section \<open>The root of the document\<close>

text \<open>
  Claim C8. The check after the root loop (line 237) throws when the root holds more
  than one key, but the root loop ends at the first element it attaches (line 223), so
  a second root element is never read: the document \<^verbatim>\<open><A/><B/>\<close> parses without an
  error, to the value of its first element.
\<close>

theorem two_root_elements_parse: 
  "parse_xml no_files default_options ''<A/><B/>'' = Some (Returned (Scalar []))"
  by code_simp

section \<open>Composition and the input tree\<close>












section \<open>CDATA sections\<close>

lemma up_to_last_close_append: "up_to_last_close (c @ '']]'') = Some c"
  by (induction c) simp_all

lemma not_suffix_close:
  assumes "p \<noteq> []" and "last p \<noteq> CHR '']''" and "\<not> sublist '']]>'' (u @ ''>'' @ v)"
  shows "\<not> suffix '']]'' (p @ u)"
proof
  assume s: "suffix '']]'' (p @ u)"
  show False
  proof (cases u rule: rev_cases)
    case Nil
    then show ?thesis using s assms(1,2) by (auto simp: suffix_def)
  next
    case (snoc u' x)
    show ?thesis
    proof (cases u' rule: rev_cases)
      case Nil
      then show ?thesis using s snoc assms(1,2)
        by (auto simp: suffix_def)
    next
      case (snoc u'' y)
      with \<open>u = u' @ [x]\<close> have u: "u = u'' @ [y, x]" by simp
      from s have "y = CHR '']''" "x = CHR '']''"
        unfolding u suffix_def by (auto simp: append_eq_append_conv2 Cons_eq_append_conv)
      then have "u @ ''>'' @ v = u'' @ '']]>'' @ v" using u by simp
      then show ?thesis using assms(3) by (metis sublist_appendI)
    qed
  qed
qed


lemma takeWhile_neq_append:
  "a \<notin> set xs \<Longrightarrow> takeWhile (\<lambda>x. x \<noteq> a) (xs @ ys) = xs @ takeWhile (\<lambda>x. x \<noteq> a) ys"
  by (induction xs) auto

lemma dropWhile_neq_append:
  "a \<notin> set xs \<Longrightarrow> dropWhile (\<lambda>x. x \<noteq> a) (xs @ ys) = dropWhile (\<lambda>x. x \<noteq> a) ys"
  by (induction xs) auto

lemma cdata_loop:
  assumes "p \<noteq> []" and "last p \<noteq> CHR '']''" and "\<not> sublist '']]>'' c"
  shows "next_close_loop patEndCDATA (p @ takeWhile (\<lambda>x. x \<noteq> CHR ''>'') (c @ '']]>'' @ z))
           (tl (dropWhile (\<lambda>x. x \<noteq> CHR ''>'') (c @ '']]>'' @ z)))
         = Inr (p @ c @ '']]'', z)"
  using assms
proof (induction "length c" arbitrary: c p rule: less_induct)
  case less
  show ?case
  proof (cases "CHR ''>'' \<in> set c")
    case False
    then have tw: "takeWhile (\<lambda>x. x \<noteq> CHR ''>'') (c @ '']]>'' @ z) = c @ '']]''"
      and dw: "dropWhile (\<lambda>x. x \<noteq> CHR ''>'') (c @ '']]>'' @ z) = ''>'' @ z"
      by (simp_all add: takeWhile_neq_append dropWhile_neq_append)
    have "patEndCDATA (p @ c @ '']]'')"
      unfolding patEndCDATA_def suffix_def by (rule exI [of _ "p @ c"]) simp
    then show ?thesis
      unfolding tw dw using next_close_loop_done [of patEndCDATA "p @ c @ '']]''" z] by simp
  next
    case True
    then obtain u v where c: "c = u @ CHR ''>'' # v" and u: "CHR ''>'' \<notin> set u"
      by (meson split_list_first)
    have tw: "takeWhile (\<lambda>x. x \<noteq> CHR ''>'') (c @ '']]>'' @ z) = u"
      and dw: "tl (dropWhile (\<lambda>x. x \<noteq> CHR ''>'') (c @ '']]>'' @ z)) = v @ '']]>'' @ z"
      using u by (simp_all add: c takeWhile_neq_append dropWhile_neq_append)
    have notfin: "\<not> patEndCDATA (p @ u)"
      unfolding patEndCDATA_def
      using not_suffix_close [OF less.prems(1,2), of u v] less.prems(3) by (simp add: c)
    have more: "dropWhile (\<lambda>x. x \<noteq> CHR ''>'') (v @ '']]>'' @ z) \<noteq> []"
      by simp
    have v: "\<not> sublist '']]>'' v"
      using less.prems(3) unfolding c
      by (metis sublist_Cons_right sublist_append_leftI sublist_order.order.trans)
    have ih: "next_close_loop patEndCDATA
                ((p @ u @ ''>'') @ takeWhile (\<lambda>x. x \<noteq> CHR ''>'') (v @ '']]>'' @ z))
                (tl (dropWhile (\<lambda>x. x \<noteq> CHR ''>'') (v @ '']]>'' @ z)))
              = Inr ((p @ u @ ''>'') @ v @ '']]'', z)"
      by (rule less.hyps) (simp_all add: c v)
    show ?thesis
      unfolding tw dw
      using next_close_loop_step [of patEndCDATA "p @ u" "v @ '']]>'' @ z", OF notfin more] ih
      by (simp add: c)
  qed
qed


lemma patTag_at_tag:
  assumes "CHR ''<'' \<notin> set b" and "tag \<noteq> []" and "CHR ''>'' \<notin> set tag"
  shows "patTag_at (b @ ''<'' @ tag @ ''>'' @ rest) = Some (b, tag, rest)"
  using assms
  by (simp add: patTag_at_def takeWhile_neq_append dropWhile_neq_append)

lemma patTag_from_tag:
  assumes "CHR ''<'' \<notin> set b" and "tag \<noteq> []" and "CHR ''>'' \<notin> set tag"
  shows "patTag_from (b @ ''<'' @ tag @ ''>'' @ rest) = Some (b, tag, rest)"
proof (cases "b @ ''<'' @ tag @ ''>'' @ rest")
  case Nil
  then show ?thesis by simp
next
  case (Cons x xs)
  have "patTag_at (x # xs) = Some (b, tag, rest)"
    using patTag_at_tag [OF assms, of rest] unfolding Cons .
  then show ?thesis unfolding Cons by simp
qed

lemma patTag_exec_tag:
  assumes "txt = pre @ b @ ''<'' @ tag @ ''>'' @ rest" and "i = length pre"
    and "CHR ''<'' \<notin> set b" and "tag \<noteq> []" and "CHR ''>'' \<notin> set tag"
  shows "patTag_exec txt i = Some (b, tag, length txt - length rest)"
  using patTag_from_tag [OF assms(3,4,5), of rest] assms(1,2)
  by (simp add: patTag_exec_def)

lemma drop_to_suffix: "drop (length (xs @ ys) - length ys) (xs @ ys) = ys"
  by simp

lemma parse_attribs_Nil: "parse_attribs [] = []"
  by (simp add: parse_attribs.simps [of "[]"])

lemma new_leaf_no_attribs: "new_leaf opts [] = []"
  by (simp add: new_leaf_def set_attribs_def parse_attribs_Nil num_keys_def)

text \<open>
  Claim C9. A CDATA section is not ended at a \<^verbatim>\<open>>\<close> inside its content: for every content
  \<open>c\<close> that does not hold the terminator \<^verbatim>\<open>]]>\<close> itself, the document
  \<^verbatim>\<open><R><![CDATA[\<close>\<open>c\<close>\<^verbatim>\<open>]]></R>\<close> parses to the text \<open>c\<close> (entity-decoded and trimmed, as
  all text is with the default options), whatever the number of \<^verbatim>\<open>>\<close> in \<open>c\<close>: the parser
  appends chunk after chunk up to the next \<^verbatim>\<open>>\<close> until the tag ends with \<^verbatim>\<open>]]\<close>.
\<close>

theorem cdata_keeps_closing_brackets:
  assumes "\<not> sublist '']]>'' c"
  shows "parse_xml readFileSync default_options (''<R><![CDATA['' @ c @ '']]></R>'')
         = Some (Returned (Scalar (trim (decode_entities c))))"
proof -
  define T where "T = ''<R><![CDATA['' @ c @ '']]></R>''"
  define X where "X = c @ '']]>'' @ ''</R>''"
  define u0 where "u0 = takeWhile (\<lambda>x. x \<noteq> CHR ''>'') X"
  define rest0 where "rest0 = tl (dropWhile (\<lambda>x. x \<noteq> CHR ''>'') X)"
  define tag0 where "tag0 = ''![CDATA['' @ u0"
  define opts where "opts = default_options"
  define st0 where "st0 = initial_parser"
  have opts: "\<not> lowerCase opts" "\<not> preserveWhitespace opts" "\<not> preserveAttributes opts"
    "\<not> preserveDocumentNode opts" "dataKey opts = ''_Data''" "init_options opts = opts"
    by (simp_all add: opts_def default_options_def init_options_def)
  have dX: "dropWhile (\<lambda>x. x \<noteq> CHR ''>'') X \<noteq> []"
    by (simp add: X_def)
  have X: "X = u0 @ CHR ''>'' # rest0"
  proof (cases "dropWhile (\<lambda>x. x \<noteq> CHR ''>'') X")
    case Nil
    then show ?thesis using dX by simp
  next
    case (Cons a as)
    have "\<not> (hd (dropWhile (\<lambda>x. x \<noteq> CHR ''>'') X) \<noteq> CHR ''>'')"
      using dX by (rule hd_dropWhile)
    then have a: "a = CHR ''>''" using Cons by simp
    have "X = takeWhile (\<lambda>x. x \<noteq> CHR ''>'') X @ dropWhile (\<lambda>x. x \<noteq> CHR ''>'') X"
      by simp
    then show ?thesis unfolding u0_def rest0_def Cons a by simp
  qed
  have T: "T = ''<R><![CDATA['' @ X" by (simp add: T_def X_def)
  have T3: "drop 3 T = ''<![CDATA['' @ X" by (simp add: T)
  have lenT: "length T = 12 + length X" by (simp add: T)
  have lenX: "length X = Suc (length u0 + length rest0)" by (simp add: X)
  have s1: "patTag_exec T (lastIndex st0) = Some ([], ''R'', 3)"
    by (simp add: st0_def initial_parser_def patTag_exec_def T patTag_at_def)
  have u0: "CHR ''>'' \<notin> set u0"
    unfolding u0_def by (auto dest: set_takeWhileD)
  have s2: "patTag_exec T 3 = Some ([], tag0, length T - length rest0)"
    by (rule patTag_exec_tag [where pre = "''<R>''"]) (simp_all add: T X tag0_def u0)
  have d2: "drop (length T - length rest0) T = rest0"
    using drop_to_suffix [of "''<R><![CDATA['' @ u0 @ ''>''" rest0] by (simp add: T X)
  have loop: "next_close_loop patEndCDATA tag0 rest0 = Inr (''![CDATA['' @ c @ '']]'', ''</R>'')"
    unfolding tag0_def u0_def rest0_def X_def
    by (rule cdata_loop) (simp_all add: assms)
  have node: "patCDATANode (''![CDATA['' @ c @ '']]'') = Some c"
    by (simp add: patCDATANode_def cdata_open_def is_space_def up_to_last_close_append)
  have special: "patSpecialTag tag0" "\<not> patPITag tag0" "\<not> patCommentTag tag0" "\<not> patDTDTag tag0"
    "patCDATATag tag0"
    by (simp_all add: tag0_def patSpecialTag_def patPITag_def patCommentTag_def patDTDTag_def
          patCDATATag_def cdata_open_def is_space_def)
  define st1 where "st1 = st0\<lparr>lastIndex := 3\<rparr>"
  define st2 where "st2 = st1\<lparr>lastIndex := length T - length rest0\<rparr>"
  define st3 where "st3 = st2\<lparr>lastIndex := length T - 4\<rparr>"
  define data where "data = [(''_Data'', Scalar (trim (decode_entities c)))]"
  have cdata: "parse_special opts T st2 [] tag0 = Inr (data, st3)"
    using special loop node d2
    by (simp add: parse_special_def parseCDATANode_def st2_def st3_def append_data_def opts
          hash_get_def is_defined_def data_def)
  have s3: "patTag_exec T (lastIndex st3) = Some ([], ''/R'', length T)"
  proof -
    have "drop (length T - 4) T = ''</R>''"
      using drop_to_suffix [of "''<R><![CDATA['' @ c @ '']]>''" "''</R>''"] by (simp add: T_def)
    then show ?thesis by (simp add: st3_def patTag_exec_def patTag_at_def)
  qed
  have std_R: "\<not> patSpecialTag ''R''" "patStandardTag ''R'' = Some (False, ''R'', [])"
    "\<not> patSelfClosing []"
    by (simp_all add: patSpecialTag_def patStandardTag_def patSelfClosing_def is_space_def
          is_name_char_def is_word_def)
  have std_cR: "\<not> patSpecialTag ''/R''" "patStandardTag ''/R'' = Some (True, ''R'', [])"
    by (simp_all add: patSpecialTag_def patStandardTag_def is_space_def
          is_name_char_def is_word_def)
  have lead: "leading_text opts b [] = b" for b by (simp add: leading_text_def)
  have fold: "fold_case opts n = n" for n by (simp add: fold_case_def opts)
  have p3: "parse (Suc f) opts T st3 data (Some ''R'') = Some (Inr (data, st3\<lparr>lastIndex := length T\<rparr>))" for f
    by (simp add: parse_closing_tag [OF s3 std_cR] fold lead)
  have s2': "patTag_exec T (lastIndex st1) = Some ([], tag0, length T - length rest0)"
    using s2 by (simp add: st1_def)
  have p2: "parse (Suc (Suc f)) opts T st1 [] (Some ''R'') = Some (Inr (data, st3\<lparr>lastIndex := length T\<rparr>))" for f
    using cdata by (simp add: parse_special_tag [OF s2' special(1)] lead st2_def [symmetric] p3)
  have p1: "parse (Suc (Suc (Suc f))) opts T st0 [] None =
        Some (Inr ([(''R'', Scalar (trim (decode_entities c)))], st3\<lparr>lastIndex := length T\<rparr>))" for f
    by (simp add: parse_opening_tag [OF s1 std_R(1,2)] std_R(3) new_leaf_no_attribs fold lead
          st1_def [symmetric] p2 compress_leaf_def data_def opts hash_get_def is_defined_def
          num_keys_def add_leaf_def)
  have fuel: "Suc (length T) = Suc (Suc (Suc (length T - 2)))" by (simp add: lenT)
  have "XML_parse default_options T =
      Some (Inr (Scalar (trim (decode_entities c)), st3\<lparr>lastIndex := length T\<rparr>, Some ''R''))"
    unfolding XML_parse_def opts_def [symmetric] opts(6) st0_def [symmetric] fuel p1
    by (simp add: finish_document_def opts hash_get_def is_defined_def num_keys_def first_key_def
          own_keys_def is_array_index_def is_digit_def list_all_def)
  moreover have "XML_text readFileSync T = Inr T"
    by (simp add: XML_text_def patStartsWithTag_def T is_space_def)
  ultimately have "parse_xml readFileSync default_options T
      = Some (Returned (Scalar (trim (decode_entities c))))"
    by (simp add: parse_xml_def)
  then show ?thesis unfolding T_def .
qed


theorem cdata_keeps_closing_brackets_witness:
  "\<not> sublist '']]>'' ''a>b''
   \<and> parse_xml no_files default_options ''<R><![CDATA[a>b]]></R>'' = Some (Returned (Scalar ''a>b''))"
proof -
  have h: "\<not> sublist '']]>'' ''a>b''" by code_simp
  have t: "trim (decode_entities ''a>b'') = ''a>b''" by code_simp
  show ?thesis using cdata_keeps_closing_brackets [OF h, of no_files] h t by simp
qed

section \<open>Sequences stay flat\<close>



































end
